theory Spec2Isabelle
  imports Complex_Main "HOL-Library.AList"
begin

section \<open>The Bravyi-Kitaev transform of FermiLib\<close>

text \<open>
  The development embeds \<^verbatim>\<open>fermilib/transforms/_bravyi_kitaev.py\<close>. That module
  is the only one of the sources; the operator algebra (\<^verbatim>\<open>QubitOperator\<close>), the
  Fenwick tree (\<^verbatim>\<open>FenwickTree\<close>) and \<^verbatim>\<open>count_qubits\<close> are imported collaborators.
  The Fenwick tree is a parameter of the model, the other two are modelled from the
  specification's description of them.
\<close>

subsection \<open>Data model\<close>

text \<open>The Pauli letters \<^verbatim>\<open>'X'\<close>, \<^verbatim>\<open>'Y'\<close>, \<^verbatim>\<open>'Z'\<close>.\<close>

datatype pauli = X | Y | Z

text \<open>
  A Pauli term is a tuple of (qubit index, letter) pairs; a qubit operator is its
  \<^verbatim>\<open>terms\<close> dictionary from Pauli terms to complex coefficients, kept as the list of its
  items in insertion order. Coefficients are exact complex numbers.
\<close>

type_synonym pauli_term = "(nat \<times> pauli) list"

type_synonym qubit_operator = "(pauli_term \<times> complex) list"

text \<open>
  A ladder operator is the tuple (mode, raising-vs-lowering); the second component is
  tested for truth by the code, so \<open>0\<close> is lowering and everything else raising. A
  fermionic operator is its \<^verbatim>\<open>terms\<close> dictionary from tuples of ladder operators to
  coefficients, as the list of its items in iteration order.
\<close>

type_synonym ladder_operator = "nat \<times> nat"

type_synonym fermion_term = "ladder_operator list"

type_synonym fermion_operator = "(fermion_term \<times> complex) list"

text \<open>
  The class \<^verbatim>\<open>FenwickTree\<close> is not among the sources. A built tree is taken as a
  parameter: its three queries, each already mapped to the list of
  \<^verbatim>\<open>node.index\<close> values that the transform reads off the returned nodes. A query may
  fail (\<open>None\<close>), as the specification says it does for an index outside the tree.
\<close>

record fenwick_tree =
  get_parity_set :: "nat \<Rightarrow> nat list option"
  get_update_set :: "nat \<Rightarrow> nat list option"
  get_remainder_set :: "nat \<Rightarrow> nat list option"

text \<open>
  The failures of a call: the \<^verbatim>\<open>ValueError('Invalid number of qubits specified.')\<close>
  raised by \<^verbatim>\<open>bravyi_kitaev\<close> itself, any exception coming out of the Fenwick tree
  (its constructor or one of its queries), and the \<^verbatim>\<open>KeyError\<close> of reading
  \<^verbatim>\<open>operator.terms[term]\<close> for a key that the dictionary does not hold.
\<close>

datatype error = InvalidNumberOfQubits | FenwickTreeError | KeyError

subsection \<open>The qubit operator algebra\<close>

text \<open>
  Modelled from the spec: the class \<^verbatim>\<open>QubitOperator\<close> (imported from projectq) is
  missing from the sources. Section 3 describes a qubit operator as a mapping from Pauli
  terms to coefficients, a Pauli term being order-independent; section 6 asks for the
  construction of a single-term operator from a sequence of (index, letter) pairs and a
  coefficient, the empty sequence giving the identity term. The order-independent term
  is represented by the sequence sorted by qubit index (a stable sort).
\<close>

definition QubitOperator :: "pauli_term \<Rightarrow> complex \<Rightarrow> qubit_operator" where
  "QubitOperator term coefficient = [(sort_key fst term, coefficient)]"

text \<open>
  Modelled from the spec: \<^verbatim>\<open>QubitOperator()\<close>, the zero operator, has no terms.
\<close>

definition qubit_zero :: qubit_operator where
  "qubit_zero = []"

text \<open>
  Modelled from the spec: accumulation (\<^verbatim>\<open>+=\<close>) combines equal Pauli terms by summing
  their coefficients (section 6); a term whose coefficient cancels to zero is dropped
  (section 4.2). \<open>accumulate\<close> adds one (term, coefficient) item to a dictionary.
\<close>

fun accumulate :: "qubit_operator \<Rightarrow> pauli_term \<times> complex \<Rightarrow> qubit_operator" where
  "accumulate self (t, c) =
     (case map_of self t of
        None \<Rightarrow> self @ [(t, c)]
      | Some c0 \<Rightarrow>
          if c0 + c = 0 then AList.delete t self else AList.update t (c0 + c) self)"

definition qubit_add :: "qubit_operator \<Rightarrow> qubit_operator \<Rightarrow> qubit_operator" where
  "qubit_add self addend = foldl accumulate self addend"

text \<open>
  Modelled from the spec: the single-qubit Pauli algebra of section 6,
  \<^verbatim>\<open>XX=YY=ZZ=I, XY=iZ, YX=-iZ, YZ=iX, ZY=-iX, ZX=iY, XZ=-iY\<close>; \<open>None\<close> is the identity.
\<close>

fun pauli_product :: "pauli \<Rightarrow> pauli \<Rightarrow> complex \<times> pauli option" where
  "pauli_product X X = (1, None)"
| "pauli_product Y Y = (1, None)"
| "pauli_product Z Z = (1, None)"
| "pauli_product X Y = (\<i>, Some Z)"
| "pauli_product Y X = (- \<i>, Some Z)"
| "pauli_product Y Z = (\<i>, Some X)"
| "pauli_product Z Y = (- \<i>, Some X)"
| "pauli_product Z X = (\<i>, Some Y)"
| "pauli_product X Z = (- \<i>, Some Y)"

text \<open>
  Modelled from the spec: the product of two Pauli terms is their concatenation with
  Pauli-algebra reduction (section 3): letters on the same qubit are multiplied, the
  phase is collected, and the result is again ordered by qubit index.
\<close>

fun term_product :: "pauli_term \<Rightarrow> pauli_term \<Rightarrow> complex \<times> pauli_term" where
  "term_product [] right = (1, right)"
| "term_product left [] = (1, left)"
| "term_product ((ql, pl) # left) ((qr, pr) # right) =
     (if ql = qr then
        (let (s, p) = pauli_product pl pr; (s', t) = term_product left right
         in (s * s', case p of None \<Rightarrow> t | Some p' \<Rightarrow> (ql, p') # t))
      else if qr < ql then
        (let (s', t) = term_product ((ql, pl) # left) right in (s', (qr, pr) # t))
      else
        (let (s', t) = term_product left ((qr, pr) # right) in (s', (ql, pl) # t)))"

text \<open>
  Modelled from the spec: multiplication (\<^verbatim>\<open>*=\<close>) combines every term of the left
  operand with every term of the right one, multiplying the coefficients (section 6),
  and collects equal product terms as the sum does.
\<close>

definition product_items :: "qubit_operator \<Rightarrow> qubit_operator \<Rightarrow> qubit_operator" where
  "product_items self multiplier =
     concat (map (\<lambda>(l, cl). map (\<lambda>(r, cr).
        (let (s, t) = term_product l r in (t, cl * cr * s))) multiplier) self)"

definition qubit_mul :: "qubit_operator \<Rightarrow> qubit_operator \<Rightarrow> qubit_operator" where
  "qubit_mul self multiplier = foldl accumulate [] (product_items self multiplier)"

text \<open>
  Modelled from the spec: \<^verbatim>\<open>count_qubits\<close> (from \<^verbatim>\<open>fermilib.utils\<close>) is missing from
  the sources. Section 4.2 describes its value as the minimum qubit count implied by the
  operator, the highest referenced mode index plus one; an operator that references no
  mode implies no qubit.
\<close>

definition count_qubits :: "fermion_operator \<Rightarrow> int" where
  "count_qubits operator =
     foldl max 0 (map (\<lambda>ladder_operator. int (fst ladder_operator) + 1)
                      (concat (map fst operator)))"

subsection \<open>The transform\<close>

text \<open>
  \<^verbatim>\<open>_transform_ladder_operator\<close>: the three index lists are read from the tree, then
  the "d" and the "c" majorana components are built and added.
\<close>

definition transform_ladder_operator ::
  "ladder_operator \<Rightarrow> fenwick_tree \<Rightarrow> error + qubit_operator" where
  "transform_ladder_operator ladder_operator fenwick_tree =
     (let index = fst ladder_operator in
      case get_parity_set fenwick_tree index of
        None \<Rightarrow> Inl FenwickTreeError
      | Some parity_set \<Rightarrow>
     (case get_update_set fenwick_tree index of
        None \<Rightarrow> Inl FenwickTreeError
      | Some ancestors \<Rightarrow>
     (case get_remainder_set fenwick_tree index of
        None \<Rightarrow> Inl FenwickTreeError
      | Some ancestor_children \<Rightarrow>
     (let d_coefficient = (if snd ladder_operator \<noteq> 0 then - (\<i> / 2) else \<i> / 2);
          d_majorana_component = QubitOperator
            ((fst ladder_operator, Y) #
             map (\<lambda>index. (index, Z)) ancestor_children @
             map (\<lambda>index. (index, X)) ancestors)
            d_coefficient;
          c_majorana_component = QubitOperator
            ((fst ladder_operator, X) #
             map (\<lambda>index. (index, Z)) parity_set @
             map (\<lambda>index. (index, X)) ancestors)
            (1 / 2)
      in Inr (qubit_add c_majorana_component d_majorana_component)))))"

text \<open>
  \<^verbatim>\<open>inline_sum\<close> and \<open>inline_product\<close>: the loops \<^verbatim>\<open>for r in ...: seed += r\<close> and
  \<^verbatim>\<open>seed *= r\<close>. The iterable is a generator, so an element is computed when the loop
  reaches it, and an exception raised while computing it ends the loop.
\<close>

fun inline_sum ::
  "qubit_operator \<Rightarrow> (error + qubit_operator) list \<Rightarrow> error + qubit_operator" where
  "inline_sum seed [] = Inr seed"
| "inline_sum seed (Inl e # summands) = Inl e"
| "inline_sum seed (Inr r # summands) = inline_sum (qubit_add seed r) summands"

fun inline_product ::
  "qubit_operator \<Rightarrow> (error + qubit_operator) list \<Rightarrow> error + qubit_operator" where
  "inline_product seed [] = Inr seed"
| "inline_product seed (Inl e # factors) = Inl e"
| "inline_product seed (Inr r # factors) = inline_product (qubit_mul seed r) factors"

definition transform_operator_term ::
  "fermion_term \<Rightarrow> complex \<Rightarrow> fenwick_tree \<Rightarrow> error + qubit_operator" where
  "transform_operator_term term coefficient fenwick_tree =
     (let transformed_ladder_ops =
            map (\<lambda>ladder_operator. transform_ladder_operator ladder_operator fenwick_tree)
                term
      in inline_product (QubitOperator [] coefficient) transformed_ladder_ops)"

text \<open>
  \<^verbatim>\<open>bravyi_kitaev\<close>. The constructor \<^verbatim>\<open>FenwickTree\<close> is the first argument; it may
  fail. \<open>n_qubits\<close> is \<open>None\<close> or an integer. The loop over \<^verbatim>\<open>operator.terms\<close> reads
  each key with its coefficient \<^verbatim>\<open>operator.terms[term]\<close>, which is the item of the
  dictionary.
\<close>

definition bravyi_kitaev ::
  "(int \<Rightarrow> fenwick_tree option) \<Rightarrow> fermion_operator \<Rightarrow> int option \<Rightarrow>
   error + qubit_operator" where
  "bravyi_kitaev FenwickTree operator n_qubits_arg =
     (let n_qubits = (case n_qubits_arg of None \<Rightarrow> count_qubits operator | Some k \<Rightarrow> k)
      in if n_qubits < count_qubits operator then Inl InvalidNumberOfQubits
         else
           (case FenwickTree n_qubits of
              None \<Rightarrow> Inl FenwickTreeError
            | Some fenwick_tree \<Rightarrow>
                (let transformed_terms =
                       map (\<lambda>(term, coefficient).
                              transform_operator_term term coefficient fenwick_tree)
                           operator
                 in inline_sum qubit_zero transformed_terms)))"

subsection \<open>The algorithm in the specification's words\<close>

text \<open>
  Section 4.2, steps 2 and 3: the contribution of a term is the product, in left-to-right
  order, of the qubit expressions of its ladder operators, seeded with the identity Pauli
  term scaled by the coefficient; the result is the sum of the contributions, seeded with
  the zero operator. \<open>expression\<close> gives the qubit expression of a ladder operator.
\<close>

definition spec_term_contribution ::
  "(ladder_operator \<Rightarrow> qubit_operator) \<Rightarrow> fermion_term \<Rightarrow> complex \<Rightarrow> qubit_operator" where
  "spec_term_contribution expression term c =
     foldl qubit_mul (QubitOperator [] c) (map expression term)"

definition spec_transform ::
  "(ladder_operator \<Rightarrow> qubit_operator) \<Rightarrow> fermion_operator \<Rightarrow> qubit_operator" where
  "spec_transform expression operator =
     foldl qubit_add qubit_zero
       (map (\<lambda>(term, c). spec_term_contribution expression term c) operator)"

subsection \<open>The transform on a store of objects\<close>

text \<open>
  The loops of the module update their accumulator in place (\<^verbatim>\<open>seed += r\<close>,
  \<^verbatim>\<open>seed *= r\<close>), and the coefficient \<^verbatim>\<open>operator.terms[term]\<close> is read from the
  input object while the loop runs. To state what a call does to the objects that exist
  before it, the module is modelled a second time over a store: a list of objects, an
  object's address being its position, a new object being appended.
\<close>

datatype object = FermionOperator_obj fermion_operator | QubitOperator_obj qubit_operator

type_synonym heap = "object list"

definition allocate :: "heap \<Rightarrow> object \<Rightarrow> nat \<times> heap" where
  "allocate h obj = (length h, h @ [obj])"

definition qubit_terms :: "heap \<Rightarrow> nat \<Rightarrow> qubit_operator" where
  "qubit_terms h a =
     (if a < length h then (case h ! a of QubitOperator_obj q \<Rightarrow> q | _ \<Rightarrow> []) else [])"

definition fermion_terms :: "heap \<Rightarrow> nat \<Rightarrow> fermion_operator" where
  "fermion_terms h a =
     (if a < length h then (case h ! a of FermionOperator_obj f \<Rightarrow> f | _ \<Rightarrow> []) else [])"

text \<open>
  Modelled from the spec: the operations of the missing class \<^verbatim>\<open>QubitOperator\<close> on the
  store. The constructors make a new object; the value sum \<^verbatim>\<open>c + d\<close> makes a new
  object and leaves both operands alone; the in-place accumulation and multiplication of
  section 6 replace the terms of their left operand and leave the right one alone.
\<close>

definition new_QubitOperator :: "heap \<Rightarrow> pauli_term \<Rightarrow> complex \<Rightarrow> nat \<times> heap" where
  "new_QubitOperator h term coefficient =
     allocate h (QubitOperator_obj (QubitOperator term coefficient))"

definition new_qubit_zero :: "heap \<Rightarrow> nat \<times> heap" where
  "new_qubit_zero h = allocate h (QubitOperator_obj qubit_zero)"

definition qubit_add_new :: "heap \<Rightarrow> nat \<Rightarrow> nat \<Rightarrow> nat \<times> heap" where
  "qubit_add_new h a b =
     allocate h (QubitOperator_obj (qubit_add (qubit_terms h a) (qubit_terms h b)))"

definition qubit_iadd :: "heap \<Rightarrow> nat \<Rightarrow> nat \<Rightarrow> heap" where
  "qubit_iadd h self addend =
     h[self := QubitOperator_obj (qubit_add (qubit_terms h self) (qubit_terms h addend))]"

definition qubit_imul :: "heap \<Rightarrow> nat \<Rightarrow> nat \<Rightarrow> heap" where
  "qubit_imul h self multiplier =
     h[self := QubitOperator_obj (qubit_mul (qubit_terms h self) (qubit_terms h multiplier))]"

text \<open>
  \<^verbatim>\<open>_transform_ladder_operator\<close> on the store: the "d" component, the "c" component
  and their sum are three new objects; the address of the sum is returned.
\<close>

definition transform_ladder_operator_st ::
  "heap \<Rightarrow> ladder_operator \<Rightarrow> fenwick_tree \<Rightarrow> (error + nat) \<times> heap" where
  "transform_ladder_operator_st h ladder_operator fenwick_tree =
     (let index = fst ladder_operator in
      case get_parity_set fenwick_tree index of
        None \<Rightarrow> (Inl FenwickTreeError, h)
      | Some parity_set \<Rightarrow>
     (case get_update_set fenwick_tree index of
        None \<Rightarrow> (Inl FenwickTreeError, h)
      | Some ancestors \<Rightarrow>
     (case get_remainder_set fenwick_tree index of
        None \<Rightarrow> (Inl FenwickTreeError, h)
      | Some ancestor_children \<Rightarrow>
     (let d_coefficient = (if snd ladder_operator \<noteq> 0 then - (\<i> / 2) else \<i> / 2);
          (d_majorana_component, h1) = new_QubitOperator h
            ((fst ladder_operator, Y) #
             map (\<lambda>index. (index, Z)) ancestor_children @
             map (\<lambda>index. (index, X)) ancestors)
            d_coefficient;
          (c_majorana_component, h2) = new_QubitOperator h1
            ((fst ladder_operator, X) #
             map (\<lambda>index. (index, Z)) parity_set @
             map (\<lambda>index. (index, X)) ancestors)
            (1 / 2);
          (result, h3) = qubit_add_new h2 c_majorana_component d_majorana_component
      in (Inr result, h3)))))"

text \<open>
  The two loops on the store. An element of the generator is a computation on the store,
  run when the loop reaches it; the accumulator \<open>seed\<close> is an address, updated in place.
\<close>

fun inline_sum_st ::
  "heap \<Rightarrow> nat \<Rightarrow> (heap \<Rightarrow> (error + nat) \<times> heap) list \<Rightarrow> (error + nat) \<times> heap" where
  "inline_sum_st h seed [] = (Inr seed, h)"
| "inline_sum_st h seed (summand # summands) =
     (case summand h of
        (Inl e, h') \<Rightarrow> (Inl e, h')
      | (Inr r, h') \<Rightarrow> inline_sum_st (qubit_iadd h' seed r) seed summands)"

fun inline_product_st ::
  "heap \<Rightarrow> nat \<Rightarrow> (heap \<Rightarrow> (error + nat) \<times> heap) list \<Rightarrow> (error + nat) \<times> heap" where
  "inline_product_st h seed [] = (Inr seed, h)"
| "inline_product_st h seed (factor # factors) =
     (case factor h of
        (Inl e, h') \<Rightarrow> (Inl e, h')
      | (Inr r, h') \<Rightarrow> inline_product_st (qubit_imul h' seed r) seed factors)"

definition transform_operator_term_st ::
  "heap \<Rightarrow> fermion_term \<Rightarrow> complex \<Rightarrow> fenwick_tree \<Rightarrow> (error + nat) \<times> heap" where
  "transform_operator_term_st h term coefficient fenwick_tree =
     (let transformed_ladder_ops =
            map (\<lambda>ladder_operator h'.
                   transform_ladder_operator_st h' ladder_operator fenwick_tree) term;
          (seed, h1) = new_QubitOperator h [] coefficient
      in inline_product_st h1 seed transformed_ladder_ops)"

text \<open>
  \<^verbatim>\<open>bravyi_kitaev\<close> on the store. \<open>operator\<close> is the address of the input object. The
  keys are those of the dictionary when the generator is created; the coefficient of a key
  is looked up in the input object as it is when the loop reaches the key. The Fenwick
  tree and \<^verbatim>\<open>count_qubits\<close> only read their arguments.
\<close>

definition bravyi_kitaev_st ::
  "(int \<Rightarrow> fenwick_tree option) \<Rightarrow> heap \<Rightarrow> nat \<Rightarrow> int option \<Rightarrow> (error + nat) \<times> heap" where
  "bravyi_kitaev_st FenwickTree h operator n_qubits_arg =
     (let n_qubits = (case n_qubits_arg of
                        None \<Rightarrow> count_qubits (fermion_terms h operator)
                      | Some k \<Rightarrow> k)
      in if n_qubits < count_qubits (fermion_terms h operator)
         then (Inl InvalidNumberOfQubits, h)
         else
           (case FenwickTree n_qubits of
              None \<Rightarrow> (Inl FenwickTreeError, h)
            | Some fenwick_tree \<Rightarrow>
                (let transformed_terms =
                       map (\<lambda>term h'.
                              case map_of (fermion_terms h' operator) term of
                                None \<Rightarrow> (Inl KeyError, h')
                              | Some coefficient \<Rightarrow>
                                  transform_operator_term_st h' term coefficient fenwick_tree)
                           (map fst (fermion_terms h operator));
                     (seed, h1) = new_qubit_zero h
                 in inline_sum_st h1 seed transformed_terms)))"

text \<open>
  Predicates on stores: \<open>extends h h'\<close> says that every object of \<open>h\<close> is still there,
  unchanged, in \<open>h'\<close>; \<open>preserves n h0 h\<close> says so for the objects below address \<open>n\<close>;
  \<open>yields v out\<close> says that the outcome \<open>out\<close> of a computation on the store is the
  error \<open>v\<close>, or the address of an object holding the qubit operator \<open>v\<close>.
\<close>

definition extends :: "heap \<Rightarrow> heap \<Rightarrow> bool" where
  "extends h h' \<longleftrightarrow> length h \<le> length h' \<and> (\<forall>b<length h. h' ! b = h ! b)"

definition preserves :: "nat \<Rightarrow> heap \<Rightarrow> heap \<Rightarrow> bool" where
  "preserves n h0 h \<longleftrightarrow> n \<le> length h0 \<and> n \<le> length h \<and> (\<forall>b<n. h ! b = h0 ! b)"

definition yields :: "error + qubit_operator \<Rightarrow> (error + nat) \<times> heap \<Rightarrow> bool" where
  "yields v out =
     (case v of
        Inl e \<Rightarrow> fst out = Inl e
      | Inr q \<Rightarrow> (\<exists>r. fst out = Inr r \<and> r < length (snd out) \<and>
                       snd out ! r = QubitOperator_obj q))"

text \<open>
  The value of a call in which each coefficient is looked up by its key, as the store
  model does; for a dictionary (no key twice) it is \<open>bravyi_kitaev\<close>.
\<close>

definition bravyi_kitaev_lookup ::
  "(int \<Rightarrow> fenwick_tree option) \<Rightarrow> fermion_operator \<Rightarrow> int option \<Rightarrow>
   error + qubit_operator" where
  "bravyi_kitaev_lookup FenwickTree operator n_qubits_arg =
     (let n_qubits = (case n_qubits_arg of None \<Rightarrow> count_qubits operator | Some k \<Rightarrow> k)
      in if n_qubits < count_qubits operator then Inl InvalidNumberOfQubits
         else
           (case FenwickTree n_qubits of
              None \<Rightarrow> Inl FenwickTreeError
            | Some fenwick_tree \<Rightarrow>
                inline_sum qubit_zero
                  (map (\<lambda>term. case map_of operator term of
                                 None \<Rightarrow> Inl KeyError
                               | Some coefficient \<Rightarrow>
                                   transform_operator_term term coefficient fenwick_tree)
                       (map fst operator))))"

subsection \<open>Example trees\<close>

text \<open>
  Trees over no, one and two modes, used to run the transform on concrete operators. The
  sets of the only index of the one-mode tree are empty, and the sets of index \<open>1\<close> of
  the two-mode tree are the ones of the specification's examples (section 8).
  \<open>example_FenwickTree\<close> builds them and fails for every other size.
\<close>

definition zero_mode_tree :: fenwick_tree where
  "zero_mode_tree =
     \<lparr> get_parity_set = (\<lambda>i. None),
       get_update_set = (\<lambda>i. None),
       get_remainder_set = (\<lambda>i. None) \<rparr>"

definition one_mode_tree :: fenwick_tree where
  "one_mode_tree =
     \<lparr> get_parity_set = (\<lambda>i. if i = 0 then Some [] else None),
       get_update_set = (\<lambda>i. if i = 0 then Some [] else None),
       get_remainder_set = (\<lambda>i. if i = 0 then Some [] else None) \<rparr>"

definition two_mode_tree :: fenwick_tree where
  "two_mode_tree =
     \<lparr> get_parity_set = (\<lambda>i. if i = 0 then Some [] else if i = 1 then Some [0] else None),
       get_update_set = (\<lambda>i. if i = 0 then Some [1] else if i = 1 then Some [] else None),
       get_remainder_set = (\<lambda>i. if i < 2 then Some [] else None) \<rparr>"

definition example_FenwickTree :: "int \<Rightarrow> fenwick_tree option" where
  "example_FenwickTree n =
     (if n = 0 then Some zero_mode_tree
      else if n = 1 then Some one_mode_tree
      else if n = 2 then Some two_mode_tree
      else None)"

section \<open>Properties\<close>

subsection \<open>The loops\<close>

text \<open>A loop fails only with the failure of one of its elements.\<close>

lemma inline_product_error: "inline_product seed fs = Inl e \<Longrightarrow> Inl e \<in> set fs"
  by (induction seed fs rule: inline_product.induct) auto

lemma inline_sum_error: "inline_sum seed fs = Inl e \<Longrightarrow> Inl e \<in> set fs"
  by (induction seed fs rule: inline_sum.induct) auto

text \<open>When no element fails, a loop is a left fold.\<close>

lemma inline_product_Inr:
  "inline_product seed (map Inr qs) = Inr (foldl qubit_mul seed qs)"
  by (induction qs arbitrary: seed) auto

lemma inline_sum_Inr: "inline_sum seed (map Inr qs) = Inr (foldl qubit_add seed qs)"
  by (induction qs arbitrary: seed) auto

subsection \<open>Where the ValueError can come from\<close>

lemma transform_ladder_operator_not_invalid:
  "transform_ladder_operator l ft \<noteq> Inl InvalidNumberOfQubits"
  by (simp add: transform_ladder_operator_def Let_def split: option.splits)

lemma transform_operator_term_not_invalid:
  "transform_operator_term t c ft \<noteq> Inl InvalidNumberOfQubits"
proof
  assume "transform_operator_term t c ft = Inl InvalidNumberOfQubits"
  then have "Inl InvalidNumberOfQubits \<in> set (map (\<lambda>l. transform_ladder_operator l ft) t)"
    unfolding transform_operator_term_def Let_def by (rule inline_product_error)
  then obtain l where "transform_ladder_operator l ft = Inl InvalidNumberOfQubits"
    by auto
  then show False by (simp add: transform_ladder_operator_not_invalid)
qed

lemma sum_of_terms_not_invalid:
  "inline_sum seed (map (\<lambda>(t, c). transform_operator_term t c ft) op) \<noteq>
   Inl InvalidNumberOfQubits"
proof
  assume "inline_sum seed (map (\<lambda>(t, c). transform_operator_term t c ft) op) =
          Inl InvalidNumberOfQubits"
  then have "Inl InvalidNumberOfQubits \<in>
             set (map (\<lambda>(t, c). transform_operator_term t c ft) op)"
    by (rule inline_sum_error)
  then obtain t c where "transform_operator_term t c ft = Inl InvalidNumberOfQubits"
    by auto
  then show False by (simp add: transform_operator_term_not_invalid)
qed

lemma bravyi_kitaev_enough_qubits:
  "count_qubits op \<le> n \<Longrightarrow> bravyi_kitaev FT op (Some n) \<noteq> Inl InvalidNumberOfQubits"
  by (simp add: bravyi_kitaev_def Let_def sum_of_terms_not_invalid split: option.splits)

lemma count_qubits_empty: "count_qubits [] = 0"
  by (simp add: count_qubits_def)

subsection \<open>The two majorana components\<close>

text \<open>
  The key of the "c" component has no \<open>Y\<close>, the key of the "d" component has one on
  the mode of the ladder operator: the two keys differ, whatever the tree.
\<close>

lemma c_d_terms_differ:
  "sort_key fst ((i, X) # map (\<lambda>p. (p, Z)) P @ map (\<lambda>u. (u, X)) U) \<noteq>
   sort_key fst ((i, Y) # map (\<lambda>r. (r, Z)) R @ map (\<lambda>u. (u, X)) U)"
proof
  assume eq: "sort_key fst ((i, X) # map (\<lambda>p. (p, Z)) P @ map (\<lambda>u. (u, X)) U) =
    sort_key fst ((i, Y) # map (\<lambda>r. (r, Z)) R @ map (\<lambda>u. (u, X)) U)"
  have "(i, Y) \<in> set (sort_key fst ((i, Y) # map (\<lambda>r. (r, Z)) R @ map (\<lambda>u. (u, X)) U))"
    unfolding set_sort by simp
  with eq
  have "(i, Y) \<in> set (sort_key fst ((i, X) # map (\<lambda>p. (p, Z)) P @ map (\<lambda>u. (u, X)) U))"
    by simp
  then show False unfolding set_sort by auto
qed

lemma transform_ladder_operator_items:
  assumes "get_parity_set ft i = Some P" "get_update_set ft i = Some U"
    "get_remainder_set ft i = Some R"
  shows "transform_ladder_operator (i, a) ft =
     Inr [(sort_key fst ((i, X) # map (\<lambda>p. (p, Z)) P @ map (\<lambda>u. (u, X)) U), 1 / 2),
          (sort_key fst ((i, Y) # map (\<lambda>r. (r, Z)) R @ map (\<lambda>u. (u, X)) U),
           if a = 0 then \<i> / 2 else - (\<i> / 2))]"
  using assms c_d_terms_differ [of i P U R]
  by (simp add: transform_ladder_operator_def Let_def qubit_add_def QubitOperator_def)

subsection \<open>The transform as the specification's fold\<close>

lemma transform_operator_term_spec:
  assumes "\<And>l. l \<in> set term \<Longrightarrow> transform_ladder_operator l ft = Inr (expression l)"
  shows "transform_operator_term term c ft = Inr (spec_term_contribution expression term c)"
proof -
  have "map (\<lambda>l. transform_ladder_operator l ft) term = map Inr (map expression term)"
    using assms by simp
  then show ?thesis
    by (simp only: transform_operator_term_def Let_def spec_term_contribution_def
        inline_product_Inr)
qed

lemma sum_of_terms_spec:
  assumes "\<And>term c l. (term, c) \<in> set op \<Longrightarrow> l \<in> set term \<Longrightarrow>
             transform_ladder_operator l ft = Inr (expression l)"
  shows "inline_sum qubit_zero (map (\<lambda>(term, c). transform_operator_term term c ft) op) =
         Inr (spec_transform expression op)"
proof -
  have "map (\<lambda>(term, c). transform_operator_term term c ft) op =
        map Inr (map (\<lambda>(term, c). spec_term_contribution expression term c) op)"
    using assms by (auto intro!: transform_operator_term_spec)
  then show ?thesis
    by (simp only: spec_transform_def inline_sum_Inr)
qed

subsection \<open>The store model\<close>

text \<open>
  Each function of the store model only adds objects to the store it is given, apart from
  the accumulator of a loop, and returns the value of its counterpart without a store.
\<close>

lemma extends_refl: "extends h h"
  by (simp add: extends_def)

lemma preserves_extends: "preserves n h0 h \<Longrightarrow> extends h h' \<Longrightarrow> preserves n h0 h'"
  by (auto simp: preserves_def extends_def)

lemma transform_ladder_operator_st_extends: "extends h (snd (transform_ladder_operator_st h l ft))"
  by (auto simp: transform_ladder_operator_st_def Let_def new_QubitOperator_def allocate_def
      qubit_add_new_def extends_def nth_append split: option.splits)

lemma transform_ladder_operator_st_yields:
  "yields (transform_ladder_operator l ft) (transform_ladder_operator_st h l ft)"
  by (auto simp: transform_ladder_operator_st_def transform_ladder_operator_def Let_def
      new_QubitOperator_def allocate_def qubit_add_new_def yields_def nth_append qubit_terms_def
      split: option.splits)


lemma preserves_update:
  "preserves n h0 h \<Longrightarrow> n \<le> seed \<Longrightarrow> preserves n h0 (h[seed := obj])"
  by (auto simp: preserves_def)

lemma qubit_terms_at:
  "a < length h \<Longrightarrow> h ! a = QubitOperator_obj q \<Longrightarrow> qubit_terms h a = q"
  by (simp add: qubit_terms_def)

lemma imul_step:
  assumes "extends h h1" "seed < length h" "h ! seed = QubitOperator_obj s"
    and "r < length h1" "h1 ! r = QubitOperator_obj q"
  shows "qubit_imul h1 seed r = h1[seed := QubitOperator_obj (qubit_mul s q)]"
    and "seed < length (qubit_imul h1 seed r)"
    and "qubit_imul h1 seed r ! seed = QubitOperator_obj (qubit_mul s q)"
proof -
  have s1: "seed < length h1" "h1 ! seed = QubitOperator_obj s"
    using assms(1,2,3) by (auto simp: extends_def)
  show "qubit_imul h1 seed r = h1[seed := QubitOperator_obj (qubit_mul s q)]"
    using s1 assms(4,5) by (simp add: qubit_imul_def qubit_terms_at)
  then show "seed < length (qubit_imul h1 seed r)"
    and "qubit_imul h1 seed r ! seed = QubitOperator_obj (qubit_mul s q)"
    using s1 by simp_all
qed

lemma iadd_step:
  assumes "extends h h1" "seed < length h" "h ! seed = QubitOperator_obj s"
    and "r < length h1" "h1 ! r = QubitOperator_obj q"
  shows "qubit_iadd h1 seed r = h1[seed := QubitOperator_obj (qubit_add s q)]"
    and "seed < length (qubit_iadd h1 seed r)"
    and "qubit_iadd h1 seed r ! seed = QubitOperator_obj (qubit_add s q)"
proof -
  have s1: "seed < length h1" "h1 ! seed = QubitOperator_obj s"
    using assms(1,2,3) by (auto simp: extends_def)
  show "qubit_iadd h1 seed r = h1[seed := QubitOperator_obj (qubit_add s q)]"
    using s1 assms(4,5) by (simp add: qubit_iadd_def qubit_terms_at)
  then show "seed < length (qubit_iadd h1 seed r)"
    and "qubit_iadd h1 seed r ! seed = QubitOperator_obj (qubit_add s q)"
    using s1 by simp_all
qed

lemma inline_product_st_spec:
  assumes "list_all2 (\<lambda>f v. \<forall>h. preserves n h0 h \<longrightarrow> extends h (snd (f h)) \<and> yields v (f h)) fs vs"
    and "preserves n h0 h" "n \<le> seed" "seed < length h" "h ! seed = QubitOperator_obj s"
  shows "preserves n h0 (snd (inline_product_st h seed fs)) \<and>
         yields (inline_product s vs) (inline_product_st h seed fs)"
  using assms
proof (induction fs vs arbitrary: h s rule: list_all2_induct)
  case Nil
  then show ?case by (simp add: yields_def)
next
  case (Cons f fs v vs)
  obtain res h1 where f: "f h = (res, h1)" by (cases "f h")
  from Cons.hyps(1) Cons.prems(1) f have ext: "extends h h1" and y: "yields v (res, h1)"
    by auto
  have p1: "preserves n h0 h1" using Cons.prems(1) ext by (rule preserves_extends)
  show ?case
  proof (cases v)
    case (Inl e)
    with y have "res = Inl e" by (simp add: yields_def)
    then show ?thesis using f p1 Inl by (simp add: yields_def)
  next
    case (Inr q)
    with y obtain r where r: "res = Inr r" "r < length h1" "h1 ! r = QubitOperator_obj q"
      by (auto simp: yields_def)
    note st = imul_step [OF ext Cons.prems(3,4) r(2,3)]
    have p2: "preserves n h0 (qubit_imul h1 seed r)"
      unfolding st(1) using p1 Cons.prems(2) by (rule preserves_update)
    from Cons.IH [OF p2 Cons.prems(2) st(2) st(3)]
    show ?thesis using f r(1) Inr by simp
  qed
qed

lemma inline_sum_st_spec:
  assumes "list_all2 (\<lambda>f v. \<forall>h. preserves n h0 h \<longrightarrow> extends h (snd (f h)) \<and> yields v (f h)) fs vs"
    and "preserves n h0 h" "n \<le> seed" "seed < length h" "h ! seed = QubitOperator_obj s"
  shows "preserves n h0 (snd (inline_sum_st h seed fs)) \<and>
         yields (inline_sum s vs) (inline_sum_st h seed fs)"
  using assms
proof (induction fs vs arbitrary: h s rule: list_all2_induct)
  case Nil
  then show ?case by (simp add: yields_def)
next
  case (Cons f fs v vs)
  obtain res h1 where f: "f h = (res, h1)" by (cases "f h")
  from Cons.hyps(1) Cons.prems(1) f have ext: "extends h h1" and y: "yields v (res, h1)"
    by auto
  have p1: "preserves n h0 h1" using Cons.prems(1) ext by (rule preserves_extends)
  show ?case
  proof (cases v)
    case (Inl e)
    with y have "res = Inl e" by (simp add: yields_def)
    then show ?thesis using f p1 Inl by (simp add: yields_def)
  next
    case (Inr q)
    with y obtain r where r: "res = Inr r" "r < length h1" "h1 ! r = QubitOperator_obj q"
      by (auto simp: yields_def)
    note st = iadd_step [OF ext Cons.prems(3,4) r(2,3)]
    have p2: "preserves n h0 (qubit_iadd h1 seed r)"
      unfolding st(1) using p1 Cons.prems(2) by (rule preserves_update)
    from Cons.IH [OF p2 Cons.prems(2) st(2) st(3)]
    show ?thesis using f r(1) Inr by simp
  qed
qed

lemma transform_operator_term_st_spec:
  "extends h (snd (transform_operator_term_st h term c ft)) \<and>
   yields (transform_operator_term term c ft) (transform_operator_term_st h term c ft)"
proof -
  let ?h1 = "h @ [QubitOperator_obj (QubitOperator [] c)]"
  let ?fs = "map (\<lambda>l h'. transform_ladder_operator_st h' l ft) term"
  let ?vs = "map (\<lambda>l. transform_ladder_operator l ft) term"
  have la: "list_all2 (\<lambda>f v. \<forall>h'. preserves (length h) h h' \<longrightarrow>
              extends h' (snd (f h')) \<and> yields v (f h')) ?fs ?vs"
    by (simp add: list_all2_map1 list_all2_map2 list_all2_same transform_ladder_operator_st_extends transform_ladder_operator_st_yields) 
  have p: "preserves (length h) h ?h1" by (simp add: preserves_def nth_append)
  have "preserves (length h) h (snd (inline_product_st ?h1 (length h) ?fs)) \<and>
        yields (inline_product (QubitOperator [] c) ?vs) (inline_product_st ?h1 (length h) ?fs)"
    by (rule inline_product_st_spec [OF la p]) simp_all
  moreover have "transform_operator_term_st h term c ft = inline_product_st ?h1 (length h) ?fs"
    by (simp add: transform_operator_term_st_def new_QubitOperator_def allocate_def)
  ultimately show ?thesis
    by (simp add: transform_operator_term_def extends_def preserves_def)
qed


lemma fermion_terms_at:
  "a < length h \<Longrightarrow> h ! a = FermionOperator_obj op \<Longrightarrow> fermion_terms h a = op"
  by (simp add: fermion_terms_def)

lemma lookup_thunk:
  assumes "a < length h" "h ! a = FermionOperator_obj op" "preserves (length h) h h'"
  shows "extends h' (snd (case map_of (fermion_terms h' a) term of
                             None \<Rightarrow> (Inl KeyError, h')
                           | Some c \<Rightarrow> transform_operator_term_st h' term c ft)) \<and>
         yields (case map_of op term of None \<Rightarrow> Inl KeyError
                 | Some c \<Rightarrow> transform_operator_term term c ft)
                (case map_of (fermion_terms h' a) term of
                             None \<Rightarrow> (Inl KeyError, h')
                           | Some c \<Rightarrow> transform_operator_term_st h' term c ft)"
proof -
  have "a < length h'" "h' ! a = FermionOperator_obj op"
    using assms by (auto simp: preserves_def)
  then have "fermion_terms h' a = op" by (rule fermion_terms_at)
  then show ?thesis
  proof (cases "map_of op term")
    case None
    then show ?thesis using \<open>fermion_terms h' a = op\<close>
      by (simp add: extends_refl yields_def)
  next
    case (Some c)
    then show ?thesis using \<open>fermion_terms h' a = op\<close>
      by (simp add: transform_operator_term_st_spec)
  qed
qed

lemma bravyi_kitaev_st_spec:
  assumes "a < length h" "h ! a = FermionOperator_obj op"
  shows "extends h (snd (bravyi_kitaev_st FT h a n)) \<and>
         yields (bravyi_kitaev_lookup FT op n) (bravyi_kitaev_st FT h a n)"
proof -
  have ft: "fermion_terms h a = op" using assms by (rule fermion_terms_at)
  let ?n = "case n of None \<Rightarrow> count_qubits op | Some k \<Rightarrow> k"
  show ?thesis
  proof (cases "?n < count_qubits op")
    case True
    then show ?thesis
      unfolding bravyi_kitaev_st_def bravyi_kitaev_lookup_def ft
      by (simp add: Let_def extends_refl yields_def)
  next
    case valid: False
    show ?thesis
    proof (cases "FT ?n")
      case None
      then show ?thesis using valid
        unfolding bravyi_kitaev_st_def bravyi_kitaev_lookup_def ft
        by (simp add: Let_def extends_refl yields_def)
    next
      case (Some tree)
      let ?h1 = "h @ [QubitOperator_obj qubit_zero]"
      let ?fs = "map (\<lambda>term h'. case map_of (fermion_terms h' a) term of
                                None \<Rightarrow> (Inl KeyError, h')
                              | Some c \<Rightarrow> transform_operator_term_st h' term c tree)
                     (map fst op)"
      let ?vs = "map (\<lambda>term. case map_of op term of None \<Rightarrow> Inl KeyError
                              | Some c \<Rightarrow> transform_operator_term term c tree)
                     (map fst op)"
      have la: "list_all2 (\<lambda>f v. \<forall>h'. preserves (length h) h h' \<longrightarrow>
              extends h' (snd (f h')) \<and> yields v (f h')) ?fs ?vs"
        unfolding list_all2_map1 list_all2_map2
        by (rule list_all2_all_nthI) (simp_all add: lookup_thunk [OF assms])
      have p: "preserves (length h) h ?h1" by (simp add: preserves_def nth_append)
      have "preserves (length h) h (snd (inline_sum_st ?h1 (length h) ?fs)) \<and>
        yields (inline_sum qubit_zero ?vs) (inline_sum_st ?h1 (length h) ?fs)"
        by (rule inline_sum_st_spec [OF la p]) simp_all
      moreover have "bravyi_kitaev_st FT h a n = inline_sum_st ?h1 (length h) ?fs"
        using valid Some unfolding bravyi_kitaev_st_def ft
        by (simp add: Let_def new_qubit_zero_def allocate_def)
      moreover have "bravyi_kitaev_lookup FT op n = inline_sum qubit_zero ?vs"
        using valid Some by (simp add: bravyi_kitaev_lookup_def Let_def)
      ultimately show ?thesis
        by (simp add: extends_def preserves_def)
    qed
  qed
qed

lemma lookup_items:
  "distinct (map fst op) \<Longrightarrow>
   map (\<lambda>term. case map_of op term of None \<Rightarrow> Inl KeyError
                 | Some c \<Rightarrow> transform_operator_term term c ft) (map fst op) =
   map (\<lambda>(term, c). transform_operator_term term c ft) op"
  by (auto simp: map_of_eq_Some_iff)

lemma bravyi_kitaev_lookup_eq:
  "distinct (map fst op) \<Longrightarrow> bravyi_kitaev_lookup FT op n = bravyi_kitaev FT op n"
  by (simp only: bravyi_kitaev_lookup_def bravyi_kitaev_def lookup_items Let_def)

text \<open>
  For a dictionary, the store model returns the value of \<open>bravyi_kitaev\<close> and changes no
  object that existed before the call.
\<close>

lemma bravyi_kitaev_st_refines:
  assumes "a < length h" "h ! a = FermionOperator_obj op" "distinct (map fst op)"
  shows "extends h (snd (bravyi_kitaev_st FT h a n)) \<and>
         yields (bravyi_kitaev FT op n) (bravyi_kitaev_st FT h a n)"
  using bravyi_kitaev_st_spec [OF assms(1,2), of FT n] bravyi_kitaev_lookup_eq [OF assms(3)]
  by simp

section \<open>The claims\<close>

text \<open>
  C1. For every ladder operator (mode index \<open>i\<close>, action \<open>a\<close>) and every built Fenwick
  tree, with \<open>P\<close>, \<open>U\<close> and \<open>R\<close> the parity, update and remainder sets of \<open>i\<close>,
  \<^verbatim>\<open>_transform_ladder_operator\<close> returns the sum of a "c" component whose Pauli term is
  \<open>(i, X)\<close> with \<open>Z\<close> on every index of \<open>P\<close> and \<open>X\<close> on every index of \<open>U\<close>, with
  coefficient \<open>1/2\<close>, and a "d" component whose Pauli term is \<open>(i, Y)\<close> with \<open>Z\<close> on every
  index of \<open>R\<close> and \<open>X\<close> on every index of \<open>U\<close>, with coefficient \<open>\<i>/2\<close> when \<open>a\<close> is
  lowering and \<open>-\<i>/2\<close> when it is raising. The second part of the statement reads the
  same off the returned dictionary: two items, with these letters and coefficients.
\<close>

theorem C1_transform_ladder_operator_components:
  assumes "get_parity_set ft i = Some P" "get_update_set ft i = Some U"
    "get_remainder_set ft i = Some R"
  shows "transform_ladder_operator (i, a) ft =
     Inr (qubit_add
       (QubitOperator ((i, X) # map (\<lambda>p. (p, Z)) P @ map (\<lambda>u. (u, X)) U) (1 / 2))
       (QubitOperator ((i, Y) # map (\<lambda>r. (r, Z)) R @ map (\<lambda>u. (u, X)) U)
          (if a = 0 then \<i> / 2 else - (\<i> / 2))))
   \<and> (\<exists>c_term d_term.
         transform_ladder_operator (i, a) ft =
           Inr [(c_term, 1 / 2), (d_term, if a = 0 then \<i> / 2 else - (\<i> / 2))]
         \<and> set c_term = {(i, X)} \<union> {(p, Z) | p. p \<in> set P} \<union> {(u, X) | u. u \<in> set U}
         \<and> set d_term = {(i, Y)} \<union> {(r, Z) | r. r \<in> set R} \<union> {(u, X) | u. u \<in> set U}
         \<and> sorted (map fst c_term) \<and> sorted (map fst d_term))"
proof -
  let ?c = "(i, X) # map (\<lambda>p. (p, Z)) P @ map (\<lambda>u. (u, X)) U"
  let ?d = "(i, Y) # map (\<lambda>r. (r, Z)) R @ map (\<lambda>u. (u, X)) U"
  have items: "transform_ladder_operator (i, a) ft =
      Inr [(sort_key fst ?c, 1 / 2), (sort_key fst ?d, if a = 0 then \<i> / 2 else - (\<i> / 2))]"
    using assms by (rule transform_ladder_operator_items)
  have first: "transform_ladder_operator (i, a) ft =
     Inr (qubit_add (QubitOperator ?c (1 / 2))
       (QubitOperator ?d (if a = 0 then \<i> / 2 else - (\<i> / 2))))"
    using assms by (simp add: transform_ladder_operator_def Let_def)
  have sc: "set (sort_key fst ?c) =
      {(i, X)} \<union> {(p, Z) | p. p \<in> set P} \<union> {(u, X) | u. u \<in> set U}"
    unfolding set_sort by auto
  have sd: "set (sort_key fst ?d) =
      {(i, Y)} \<union> {(r, Z) | r. r \<in> set R} \<union> {(u, X) | u. u \<in> set U}"
    unfolding set_sort by auto
  have so: "sorted (map fst (sort_key fst ?c))" "sorted (map fst (sort_key fst ?d))"
    by (rule sorted_sort_key)+
  show ?thesis using first items sc sd so by blast
qed

theorem C1_transform_ladder_operator_components_witness:
  "get_parity_set two_mode_tree 0 = Some [] \<and> get_update_set two_mode_tree 0 = Some [1] \<and>
   get_remainder_set two_mode_tree 0 = Some [] \<and>
   transform_ladder_operator (0, 0) two_mode_tree =
     Inr (qubit_add (QubitOperator [(0, X), (1, X)] (1 / 2))
                    (QubitOperator [(0, Y), (1, X)] (\<i> / 2)))"
  using C1_transform_ladder_operator_components [of two_mode_tree 0 "[]" "[1]" "[]" 0]
  by (simp add: two_mode_tree_def)

text \<open>
  C2. For every fermionic operator and every explicitly supplied integer \<open>k\<close>,
  \<^verbatim>\<open>bravyi_kitaev(op, n_qubits=k)\<close> raises the ValueError if and only if
  \<open>k < count_qubits op\<close>. The error is raised before the Fenwick tree is built: the
  outcome is the same with a constructor that always fails. No partial result is
  returned: the outcome is the error, not a qubit operator.
\<close>

theorem C2_bravyi_kitaev_rejects_too_few_qubits:
  "(bravyi_kitaev FenwickTree op (Some k) = Inl InvalidNumberOfQubits
      \<longleftrightarrow> k < count_qubits op)
   \<and> (k < count_qubits op \<longrightarrow>
        bravyi_kitaev FenwickTree op (Some k) = bravyi_kitaev (\<lambda>n. None) op (Some k))"
proof -
  have a: "k < count_qubits op \<Longrightarrow> bravyi_kitaev F op (Some k) = Inl InvalidNumberOfQubits"
    for F
    by (simp add: bravyi_kitaev_def)
  have b: "\<not> k < count_qubits op \<Longrightarrow>
           bravyi_kitaev FenwickTree op (Some k) \<noteq> Inl InvalidNumberOfQubits"
    using bravyi_kitaev_enough_qubits [of op k FenwickTree] by simp
  show ?thesis using a b by metis
qed

theorem C2_bravyi_kitaev_rejects_too_few_qubits_witness:
  "(1 :: int) < count_qubits [([(1, 1)], 1)] \<and>
   bravyi_kitaev example_FenwickTree [([(1, 1)], 1)] (Some 1) = Inl InvalidNumberOfQubits \<and>
   bravyi_kitaev (\<lambda>n. None) [([(1, 1)], 1)] (Some 1) = Inl InvalidNumberOfQubits"
  using C2_bravyi_kitaev_rejects_too_few_qubits [of example_FenwickTree "[([(1, 1)], 1)]" 1]
  by (auto simp: count_qubits_def)

text \<open>
  C3. For every ladder operator occurrence, the qubit operator returned by
  \<^verbatim>\<open>_transform_ladder_operator\<close> contains exactly two Pauli terms: the dictionary has
  two items with different keys (the two components do not merge) and no zero coefficient
  (they do not cancel).
\<close>

theorem C3_transform_ladder_operator_two_terms:
  assumes "transform_ladder_operator ladder_operator ft = Inr q"
  shows "length q = 2 \<and> distinct (map fst q) \<and> card (fst ` set q) = 2 \<and> 0 \<notin> snd ` set q"
proof -
  obtain i a where l: "ladder_operator = (i, a)" by (cases ladder_operator)
  from assms obtain P U R where
    q: "get_parity_set ft i = Some P" "get_update_set ft i = Some U"
      "get_remainder_set ft i = Some R"
    by (auto simp: l transform_ladder_operator_def Let_def split: option.splits)
  have "q = [(sort_key fst ((i, X) # map (\<lambda>p. (p, Z)) P @ map (\<lambda>u. (u, X)) U), 1 / 2),
          (sort_key fst ((i, Y) # map (\<lambda>r. (r, Z)) R @ map (\<lambda>u. (u, X)) U),
           if a = 0 then \<i> / 2 else - (\<i> / 2))]"
    using transform_ladder_operator_items [OF q, of a] assms l by simp
  then show ?thesis using c_d_terms_differ [of i P U R] by simp
qed

theorem C3_transform_ladder_operator_two_terms_witness:
  "transform_ladder_operator (1, 1) two_mode_tree =
     Inr [([(0, Z), (1, X)], 1 / 2), ([(1, Y)], - (\<i> / 2))] \<and>
   length [([(0, Z), (1, X)], 1 / 2 :: complex), ([(1, Y)], - (\<i> / 2))] = 2 \<and>
   card (fst ` set [([(0, Z), (1, X)], 1 / 2 :: complex), ([(1, Y)], - (\<i> / 2))]) = 2"
proof -
  have r: "transform_ladder_operator (1, 1) two_mode_tree =
     Inr [([(0, Z), (1, X)], 1 / 2), ([(1, Y)], - (\<i> / 2))]"
    by (simp add: transform_ladder_operator_def two_mode_tree_def QubitOperator_def
        qubit_add_def)
  show ?thesis using r C3_transform_ladder_operator_two_terms [OF r] by simp
qed

text \<open>
  C4. For every input operator, \<^verbatim>\<open>bravyi_kitaev\<close> computes each term's contribution as
  the product of the per-ladder-operator qubit expressions, multiplied in left-to-right term
  order and seeded with the identity Pauli term scaled by the term's coefficient, and the
  output is the sum of all term contributions seeded with the zero qubit operator. The
  number of qubits is valid, the tree is built, and \<open>expression\<close> gives the qubit
  expression that \<^verbatim>\<open>_transform_ladder_operator\<close> returns for each ladder operator of
  the input.
\<close>

theorem C4_bravyi_kitaev_product_and_sum:
  assumes "n_qubits = None \<or> (\<exists>k. n_qubits = Some k \<and> count_qubits op \<le> k)"
    and "FenwickTree (case n_qubits of None \<Rightarrow> count_qubits op | Some k \<Rightarrow> k) = Some ft"
    and "\<And>term c l. (term, c) \<in> set op \<Longrightarrow> l \<in> set term \<Longrightarrow>
             transform_ladder_operator l ft = Inr (expression l)"
  shows "bravyi_kitaev FenwickTree op n_qubits = Inr (spec_transform expression op)
    \<and> (\<forall>(term, c) \<in> set op.
          transform_operator_term term c ft = Inr (spec_term_contribution expression term c))"
proof -
  have terms: "\<forall>(term, c) \<in> set op.
          transform_operator_term term c ft = Inr (spec_term_contribution expression term c)"
    using assms(3) by (auto intro!: transform_operator_term_spec)
  have "bravyi_kitaev FenwickTree op n_qubits =
        inline_sum qubit_zero (map (\<lambda>(term, c). transform_operator_term term c ft) op)"
    using assms(1,2) by (auto simp: bravyi_kitaev_def Let_def)
  then show ?thesis using terms sum_of_terms_spec [OF assms(3)] by simp
qed

theorem C4_bravyi_kitaev_product_and_sum_witness:
  "example_FenwickTree (count_qubits [([(1, 1), (0, 0)], 2)]) = Some two_mode_tree \<and>
   transform_ladder_operator (1, 1) two_mode_tree =
     Inr [([(0, Z), (1, X)], 1 / 2), ([(1, Y)], - (\<i> / 2))] \<and>
   transform_ladder_operator (0, 0) two_mode_tree =
     Inr [([(0, X), (1, X)], 1 / 2), ([(0, Y), (1, X)], \<i> / 2)] \<and>
   bravyi_kitaev example_FenwickTree [([(1, 1), (0, 0)], 2)] None =
     Inr (foldl qubit_add qubit_zero
       [foldl qubit_mul (QubitOperator [] 2)
          [[([(0, Z), (1, X)], 1 / 2), ([(1, Y)], - (\<i> / 2))],
           [([(0, X), (1, X)], 1 / 2), ([(0, Y), (1, X)], \<i> / 2)]]])"
proof -
  let ?e = "\<lambda>l :: ladder_operator.
      if l = (1, 1) then [([(0, Z), (1, X)], 1 / 2), ([(1, Y)], - (\<i> / 2))]
      else [([(0, X), (1, X)], 1 / 2 :: complex), ([(0, Y), (1, X)], \<i> / 2)]"
  have cq: "count_qubits [([(1, 1), (0, 0)], 2)] = 2"
    by (simp add: count_qubits_def)
  have ft: "example_FenwickTree (count_qubits [([(1, 1), (0, 0)], 2)]) = Some two_mode_tree"
    unfolding cq by (simp add: example_FenwickTree_def)
  have l1: "transform_ladder_operator (1, 1) two_mode_tree =
     Inr [([(0, Z), (1, X)], 1 / 2), ([(1, Y)], - (\<i> / 2))]"
    by (simp add: transform_ladder_operator_def two_mode_tree_def QubitOperator_def
        qubit_add_def)
  have l0: "transform_ladder_operator (0, 0) two_mode_tree =
     Inr [([(0, X), (1, X)], 1 / 2), ([(0, Y), (1, X)], \<i> / 2)]"
    by (simp add: transform_ladder_operator_def two_mode_tree_def QubitOperator_def
        qubit_add_def)
  have ls: "\<And>term c l. (term, c) \<in> set [([(1, 1), (0, 0)], 2 :: complex)] \<Longrightarrow>
      l \<in> set term \<Longrightarrow> transform_ladder_operator l two_mode_tree = Inr (?e l)"
    using l0 l1 by auto
  have "bravyi_kitaev example_FenwickTree [([(1, 1), (0, 0)], 2)] None =
        Inr (spec_transform ?e [([(1, 1), (0, 0)], 2)])"
    using C4_bravyi_kitaev_product_and_sum
      [of None "[([(1, 1), (0, 0)], 2)]" example_FenwickTree two_mode_tree ?e] ft ls
    by simp
  then show ?thesis using ft l0 l1
    by (simp add: spec_transform_def spec_term_contribution_def)
qed

text \<open>
  C5. For every fermionic operator, \<^verbatim>\<open>bravyi_kitaev(op)\<close> called with
  \<^verbatim>\<open>n_qubits=None\<close> returns the same as \<^verbatim>\<open>bravyi_kitaev(op, n_qubits=count_qubits(op))\<close>.
\<close>

theorem C5_bravyi_kitaev_infers_qubit_count:
  "bravyi_kitaev FenwickTree op None = bravyi_kitaev FenwickTree op (Some (count_qubits op))"
  by (simp add: bravyi_kitaev_def)

theorem C5_bravyi_kitaev_infers_qubit_count_witness:
  "bravyi_kitaev example_FenwickTree [([(1, 1), (0, 0)], 2)] None =
   bravyi_kitaev example_FenwickTree [([(1, 1), (0, 0)], 2)] (Some 2)"
  using C5_bravyi_kitaev_infers_qubit_count [of example_FenwickTree "[([(1, 1), (0, 0)], 2)]"]
  by (simp add: count_qubits_def)

text \<open>
  C6. For a single-mode system (\<open>n_qubits = 1\<close>, given or inferred; the parity, update
  and remainder sets of the sole qubit all empty), \<^verbatim>\<open>bravyi_kitaev\<close> maps the lowering
  operator on mode 0 to \<open>0.5 X\<^sub>0 + 0.5\<i> Y\<^sub>0\<close> and the raising operator on mode 0 to
  \<open>0.5 X\<^sub>0 - 0.5\<i> Y\<^sub>0\<close>.
\<close>

theorem C6_bravyi_kitaev_single_mode:
  assumes "FenwickTree 1 = Some ft"
    and "get_parity_set ft 0 = Some []" "get_update_set ft 0 = Some []"
    and "get_remainder_set ft 0 = Some []"
    and "n_qubits = None \<or> n_qubits = Some 1"
  shows "bravyi_kitaev FenwickTree [([(0, 0)], 1)] n_qubits =
           Inr [([(0, X)], 1 / 2), ([(0, Y)], \<i> / 2)]
       \<and> bravyi_kitaev FenwickTree [([(0, 1)], 1)] n_qubits =
           Inr [([(0, X)], 1 / 2), ([(0, Y)], - (\<i> / 2))]"
proof -
  have cq: "count_qubits [([(0, a)], 1)] = 1" for a
    by (simp add: count_qubits_def)
  have l: "transform_ladder_operator (0, a) ft =
      Inr [([(0, X)], 1 / 2), ([(0, Y)], if a = 0 then \<i> / 2 else - (\<i> / 2))]" for a
    using transform_ladder_operator_items [OF assms(2,3,4), of a] by simp
  have t: "transform_operator_term [(0, a)] 1 ft =
      Inr [([(0, X)], 1 / 2), ([(0, Y)], if a = 0 then \<i> / 2 else - (\<i> / 2))]" for a
    by (simp add: transform_operator_term_def l QubitOperator_def qubit_mul_def
        product_items_def)
  have "bravyi_kitaev FenwickTree [([(0, a)], 1)] n_qubits =
      Inr [([(0, X)], 1 / 2), ([(0, Y)], if a = 0 then \<i> / 2 else - (\<i> / 2))]" for a
    using assms(1,5) by (auto simp: bravyi_kitaev_def cq t qubit_zero_def qubit_add_def)
  from this [of 0] this [of 1] show ?thesis by simp
qed

theorem C6_bravyi_kitaev_single_mode_witness:
  "example_FenwickTree 1 = Some one_mode_tree \<and>
   get_parity_set one_mode_tree 0 = Some [] \<and> get_update_set one_mode_tree 0 = Some [] \<and>
   get_remainder_set one_mode_tree 0 = Some [] \<and>
   bravyi_kitaev example_FenwickTree [([(0, 0)], 1)] None =
     Inr [([(0, X)], 1 / 2), ([(0, Y)], \<i> / 2)] \<and>
   bravyi_kitaev example_FenwickTree [([(0, 1)], 1)] None =
     Inr [([(0, X)], 1 / 2), ([(0, Y)], - (\<i> / 2))]"
  using C6_bravyi_kitaev_single_mode [of example_FenwickTree one_mode_tree None]
  by (simp add: example_FenwickTree_def one_mode_tree_def)

text \<open>
  C7. Transforming the zero fermionic operator (an operator with no terms) with
  \<^verbatim>\<open>bravyi_kitaev\<close> yields the zero (empty) qubit operator: with the number of qubits
  inferred, or given and not below \<open>count_qubits\<close> of the operator, and the tree of that
  size built.
\<close>

theorem C7_bravyi_kitaev_zero_operator:
  assumes "FenwickTree (case n_qubits of None \<Rightarrow> count_qubits [] | Some k \<Rightarrow> k) =
           Some fenwick_tree"
    and "case n_qubits of None \<Rightarrow> True | Some k \<Rightarrow> count_qubits [] \<le> k"
  shows "bravyi_kitaev FenwickTree [] n_qubits = Inr qubit_zero"
  using assms by (cases n_qubits) (simp_all add: bravyi_kitaev_def)

theorem C7_bravyi_kitaev_zero_operator_witness:
  "example_FenwickTree (count_qubits []) = Some zero_mode_tree \<and>
   bravyi_kitaev example_FenwickTree [] None = Inr []"
  using C7_bravyi_kitaev_zero_operator [of example_FenwickTree None zero_mode_tree]
  by (simp add: example_FenwickTree_def qubit_zero_def count_qubits_empty)

subsection \<open>Two calls on a concrete store\<close>

text \<open>
  The lowering operator on mode 0 is the only object of the store; the transform is run
  on it twice.
\<close>

lemma single_mode_first_call:
  "bravyi_kitaev_st example_FenwickTree [FermionOperator_obj [([(0, 0)], 1)]] 0 None =
     (Inr 1,
      [FermionOperator_obj [([(0, 0)], 1)],
       QubitOperator_obj [([(0, X)], 1 / 2), ([(0, Y)], \<i> / 2)],
       QubitOperator_obj [([(0, X)], 1 / 2), ([(0, Y)], \<i> / 2)],
       QubitOperator_obj [([(0, Y)], \<i> / 2)],
       QubitOperator_obj [([(0, X)], 1 / 2)],
       QubitOperator_obj [([(0, X)], 1 / 2), ([(0, Y)], \<i> / 2)]])"
  by (simp add: bravyi_kitaev_st_def Let_def fermion_terms_def count_qubits_def
      example_FenwickTree_def one_mode_tree_def new_qubit_zero_def allocate_def
      transform_operator_term_st_def new_QubitOperator_def transform_ladder_operator_st_def
      qubit_add_new_def qubit_terms_def qubit_iadd_def qubit_imul_def qubit_add_def
      qubit_mul_def product_items_def QubitOperator_def qubit_zero_def)

lemma single_mode_second_call:
  "bravyi_kitaev_st example_FenwickTree
     [FermionOperator_obj [([(0, 0)], 1)],
      QubitOperator_obj [([(0, X)], 1 / 2), ([(0, Y)], \<i> / 2)],
      QubitOperator_obj [([(0, X)], 1 / 2), ([(0, Y)], \<i> / 2)],
      QubitOperator_obj [([(0, Y)], \<i> / 2)],
      QubitOperator_obj [([(0, X)], 1 / 2)],
      QubitOperator_obj [([(0, X)], 1 / 2), ([(0, Y)], \<i> / 2)]] 0 None =
     (Inr 6,
      [FermionOperator_obj [([(0, 0)], 1)],
       QubitOperator_obj [([(0, X)], 1 / 2), ([(0, Y)], \<i> / 2)],
       QubitOperator_obj [([(0, X)], 1 / 2), ([(0, Y)], \<i> / 2)],
       QubitOperator_obj [([(0, Y)], \<i> / 2)],
       QubitOperator_obj [([(0, X)], 1 / 2)],
       QubitOperator_obj [([(0, X)], 1 / 2), ([(0, Y)], \<i> / 2)],
       QubitOperator_obj [([(0, X)], 1 / 2), ([(0, Y)], \<i> / 2)],
       QubitOperator_obj [([(0, X)], 1 / 2), ([(0, Y)], \<i> / 2)],
       QubitOperator_obj [([(0, Y)], \<i> / 2)],
       QubitOperator_obj [([(0, X)], 1 / 2)],
       QubitOperator_obj [([(0, X)], 1 / 2), ([(0, Y)], \<i> / 2)]])"
  by (simp add: bravyi_kitaev_st_def Let_def fermion_terms_def count_qubits_def
      example_FenwickTree_def one_mode_tree_def new_qubit_zero_def allocate_def
      transform_operator_term_st_def new_QubitOperator_def transform_ladder_operator_st_def
      qubit_add_new_def qubit_terms_def qubit_iadd_def qubit_imul_def qubit_add_def
      qubit_mul_def product_items_def QubitOperator_def qubit_zero_def)

text \<open>
  C8. For every fixed pair (operator, \<open>n_qubits\<close>), two calls to \<^verbatim>\<open>bravyi_kitaev\<close>
  produce identical qubit operators, with the same Pauli terms and the same coefficients:
  when the call is run twice on the store, the second time on the store that the first
  call has left, either both calls fail with the same error or they return two objects
  with the same terms dictionary.
\<close>

theorem C8_bravyi_kitaev_deterministic:
  assumes "a < length h" "h ! a = FermionOperator_obj op"
    and "bravyi_kitaev_st FT h a n = (r1, h1)"
    and "bravyi_kitaev_st FT h1 a n = (r2, h2)"
  shows "case r1 of
           Inl e \<Rightarrow> r2 = Inl e
         | Inr a1 \<Rightarrow> (\<exists>a2. r2 = Inr a2 \<and> qubit_terms h2 a2 = qubit_terms h2 a1)"
proof -
  from bravyi_kitaev_st_spec [OF assms(1,2), of FT n] assms(3)
  have e1: "extends h h1" and y1: "yields (bravyi_kitaev_lookup FT op n) (r1, h1)"
    by simp_all
  have a1: "a < length h1" "h1 ! a = FermionOperator_obj op"
    using e1 assms(1,2) by (auto simp: extends_def)
  from bravyi_kitaev_st_spec [OF a1, of FT n] assms(4)
  have e2: "extends h1 h2" and y2: "yields (bravyi_kitaev_lookup FT op n) (r2, h2)"
    by simp_all
  show ?thesis
  proof (cases "bravyi_kitaev_lookup FT op n")
    case (Inl e)
    then show ?thesis using y1 y2 by (simp add: yields_def)
  next
    case (Inr q)
    with y1 obtain b1 where
      b1: "r1 = Inr b1" "b1 < length h1" "h1 ! b1 = QubitOperator_obj q"
      by (auto simp: yields_def)
    from Inr y2 obtain b2 where
      b2: "r2 = Inr b2" "b2 < length h2" "h2 ! b2 = QubitOperator_obj q"
      by (auto simp: yields_def)
    have "b1 < length h2" "h2 ! b1 = QubitOperator_obj q"
      using e2 b1 by (auto simp: extends_def)
    then have "qubit_terms h2 b1 = q" by (rule qubit_terms_at)
    moreover have "qubit_terms h2 b2 = q" using b2(2,3) by (rule qubit_terms_at)
    ultimately show ?thesis using b1(1) b2(1) by simp
  qed
qed

theorem C8_bravyi_kitaev_deterministic_witness:
  "qubit_terms
     [FermionOperator_obj [([(0, 0)], 1)],
      QubitOperator_obj [([(0, X)], 1 / 2), ([(0, Y)], \<i> / 2)],
      QubitOperator_obj [([(0, X)], 1 / 2), ([(0, Y)], \<i> / 2)],
      QubitOperator_obj [([(0, Y)], \<i> / 2)],
      QubitOperator_obj [([(0, X)], 1 / 2)],
      QubitOperator_obj [([(0, X)], 1 / 2), ([(0, Y)], \<i> / 2)],
      QubitOperator_obj [([(0, X)], 1 / 2), ([(0, Y)], \<i> / 2)],
      QubitOperator_obj [([(0, X)], 1 / 2), ([(0, Y)], \<i> / 2)],
      QubitOperator_obj [([(0, Y)], \<i> / 2)],
      QubitOperator_obj [([(0, X)], 1 / 2)],
      QubitOperator_obj [([(0, X)], 1 / 2), ([(0, Y)], \<i> / 2)]] 6 =
   qubit_terms
     [FermionOperator_obj [([(0, 0)], 1)],
      QubitOperator_obj [([(0, X)], 1 / 2), ([(0, Y)], \<i> / 2)],
      QubitOperator_obj [([(0, X)], 1 / 2), ([(0, Y)], \<i> / 2)],
      QubitOperator_obj [([(0, Y)], \<i> / 2)],
      QubitOperator_obj [([(0, X)], 1 / 2)],
      QubitOperator_obj [([(0, X)], 1 / 2), ([(0, Y)], \<i> / 2)],
      QubitOperator_obj [([(0, X)], 1 / 2), ([(0, Y)], \<i> / 2)],
      QubitOperator_obj [([(0, X)], 1 / 2), ([(0, Y)], \<i> / 2)],
      QubitOperator_obj [([(0, Y)], \<i> / 2)],
      QubitOperator_obj [([(0, X)], 1 / 2)],
      QubitOperator_obj [([(0, X)], 1 / 2), ([(0, Y)], \<i> / 2)]] 1"
proof -
  have a: "0 < length [FermionOperator_obj [([(0, 0)], 1 :: complex)]]"
    and b: "[FermionOperator_obj [([(0, 0)], 1 :: complex)]] ! 0 =
            FermionOperator_obj [([(0, 0)], 1)]"
    by simp_all
  show ?thesis
    using C8_bravyi_kitaev_deterministic
      [OF a b single_mode_first_call single_mode_second_call]
    by simp
qed

text \<open>
  C9. \<^verbatim>\<open>bravyi_kitaev\<close> never modifies its input fermionic operator: after any call,
  successful or failing, the input object holds the terms dictionary it held before. The
  same is true of every other object that existed before the call.
\<close>

theorem C9_bravyi_kitaev_preserves_input:
  assumes "a < length h" "h ! a = FermionOperator_obj op"
    and "bravyi_kitaev_st FT h a n = (result, h')"
  shows "fermion_terms h' a = fermion_terms h a \<and> h' ! a = FermionOperator_obj op \<and>
         extends h h'"
proof -
  from bravyi_kitaev_st_spec [OF assms(1,2), of FT n] assms(3)
  have e: "extends h h'" by simp
  then have "a < length h'" "h' ! a = FermionOperator_obj op"
    using assms(1,2) by (auto simp: extends_def)
  then show ?thesis using e assms(1,2) by (simp add: fermion_terms_at)
qed

theorem C9_bravyi_kitaev_preserves_input_witness:
  "fermion_terms
     [FermionOperator_obj [([(0, 0)], 1)],
      QubitOperator_obj [([(0, X)], 1 / 2), ([(0, Y)], \<i> / 2)],
      QubitOperator_obj [([(0, X)], 1 / 2), ([(0, Y)], \<i> / 2)],
      QubitOperator_obj [([(0, Y)], \<i> / 2)],
      QubitOperator_obj [([(0, X)], 1 / 2)],
      QubitOperator_obj [([(0, X)], 1 / 2), ([(0, Y)], \<i> / 2)]] 0 =
   fermion_terms [FermionOperator_obj [([(0, 0)], 1)]] 0 \<and>
   fermion_terms [FermionOperator_obj [([(0, 0)], 1)]] 0 = [([(0, 0)], 1)]"
proof -
  have a: "0 < length [FermionOperator_obj [([(0, 0)], 1 :: complex)]]"
    and b: "[FermionOperator_obj [([(0, 0)], 1 :: complex)]] ! 0 =
            FermionOperator_obj [([(0, 0)], 1)]"
    by simp_all
  show ?thesis
    using C9_bravyi_kitaev_preserves_input [OF a b single_mode_first_call]
    by (simp add: fermion_terms_def)
qed

text \<open>
  C10. When \<^verbatim>\<open>bravyi_kitaev\<close> is called with \<^verbatim>\<open>n_qubits=None\<close>, the ValueError branch
  is unreachable: the inferred number of qubits passes the check, and nothing else in the
  call raises this error.
\<close>

theorem C10_bravyi_kitaev_inferred_count_accepted:
  "bravyi_kitaev FenwickTree op None \<noteq> Inl InvalidNumberOfQubits"
  by (simp add: bravyi_kitaev_def Let_def sum_of_terms_not_invalid split: option.splits)

theorem C10_bravyi_kitaev_inferred_count_accepted_witness:
  "bravyi_kitaev example_FenwickTree [([(1, 1), (0, 0)], 2)] None \<noteq>
   Inl InvalidNumberOfQubits"
  by (rule C10_bravyi_kitaev_inferred_count_accepted)

end
